theory Spec2Isabelle
  imports Complex_Main
begin

section \<open>Data models of \<open>backend/server.py\<close>\<close>

text \<open>
  The service keeps two MongoDB collections, \<open>db.customers\<close> and \<open>db.credit_entries\<close>.
  A collection is a list of documents in insertion order; nothing in the code makes \<open>id\<close>
  a unique key, so a list may hold two documents with one id, and the store primitives
  below act on the first match as MongoDB's \<open>find_one\<close>, \<open>update_one\<close> and
  \<open>delete_one\<close> do.

  Python's \<open>float\<close> amounts are idealised as \<open>real\<close> (no rounding, no NaN), a
  \<open>datetime\<close> is a point on the integer time line, and \<open>uuid.uuid4()\<close> and
  \<open>datetime.utcnow()\<close> are inputs of the handlers that call them. Store calls do not
  fail; a \<open>$set\<close> with no field changes nothing.
\<close>

type_synonym datetime = int

text \<open>\<open>class Customer(BaseModel)\<close>; its \<open>id\<close> and \<open>created_at\<close> are renamed because
  \<open>CreditEntry\<close> has fields of the same names.\<close>

record Customer =
  cust_id :: string
  name :: string
  phone :: "string option"
  address :: "string option"
  cust_created_at :: datetime
  total_credit :: real
  total_paid :: real
  outstanding_balance :: real

text \<open>\<open>class CustomerCreate(BaseModel)\<close>, after validation.\<close>

record CustomerCreate =
  cc_name :: string
  cc_phone :: "string option"
  cc_address :: "string option"

text \<open>The body of \<open>POST /api/customers\<close> before validation: \<open>name\<close> may be missing.\<close>

record CustomerBody =
  body_name :: "string option"
  body_phone :: "string option"
  body_address :: "string option"

text \<open>\<open>class CreditEntry(BaseModel)\<close>.\<close>

record CreditEntry =
  entry_id :: string
  customer_id :: string
  amount :: real
  description :: "string option"
  date :: datetime
  image_data :: "string option"
  is_paid :: bool
  paid_amount :: real
  entry_created_at :: datetime

text \<open>\<open>class CreditEntryCreate(BaseModel)\<close>.\<close>

record CreditEntryCreate =
  ec_customer_id :: string
  ec_amount :: real
  ec_description :: "string option"
  ec_date :: datetime
  ec_image_data :: "string option"

text \<open>\<open>class CreditEntryUpdate(BaseModel)\<close>: every field is \<open>Optional\<close> with default
  \<open>None\<close>.\<close>

record CreditEntryUpdate =
  eu_amount :: "real option"
  eu_description :: "string option"
  eu_date :: "datetime option"
  eu_is_paid :: "bool option"
  eu_paid_amount :: "real option"

text \<open>\<open>class PaymentUpdate(BaseModel)\<close>.\<close>

record PaymentUpdate =
  pu_is_paid :: bool
  pu_paid_amount :: real


text \<open>The database \<open>db\<close>.\<close>

record db =
  customers :: "Customer list"
  credit_entries :: "CreditEntry list"

text \<open>\<open>HTTPException(status_code=404, detail=...)\<close>, FastAPI's 422 for a body that does
  not validate, and the 500 of an uncaught exception.\<close>

datatype error = NotFound string | ValidationError | InternalError

text \<open>The outcome of a handler that writes: the exception raised together with the store at
  that moment, or the store after the handler and the value it returns. The two delete
  handlers return only a fixed message, so their outcome on success is the store.\<close>

type_synonym 'a response = "error \<times> db + db \<times> 'a"

section \<open>Store primitives\<close>

fun find_one :: "('a \<Rightarrow> bool) \<Rightarrow> 'a list \<Rightarrow> 'a option" where
  "find_one P [] = None"
| "find_one P (x # xs) = (if P x then Some x else find_one P xs)"

definition find_docs :: "('a \<Rightarrow> bool) \<Rightarrow> 'a list \<Rightarrow> 'a list" where
  "find_docs P xs = filter P xs"

definition to_list :: "nat \<Rightarrow> 'a list \<Rightarrow> 'a list" where
  "to_list n xs = take n xs"

definition insert_one :: "'a \<Rightarrow> 'a list \<Rightarrow> 'a list" where
  "insert_one x xs = xs @ [x]"

fun update_one :: "('a \<Rightarrow> bool) \<Rightarrow> ('a \<Rightarrow> 'a) \<Rightarrow> 'a list \<Rightarrow> 'a list" where
  "update_one P f [] = []"
| "update_one P f (x # xs) = (if P x then f x # xs else x # update_one P f xs)"

text \<open>\<open>delete_one\<close> returns \<open>deleted_count\<close> and the remaining documents.\<close>

fun delete_one :: "('a \<Rightarrow> bool) \<Rightarrow> 'a list \<Rightarrow> nat \<times> 'a list" where
  "delete_one P [] = (0, [])"
| "delete_one P (x # xs) =
     (if P x then (1, xs)
      else (case delete_one P xs of (n, ys) \<Rightarrow> (n, x # ys)))"

definition delete_many :: "('a \<Rightarrow> bool) \<Rightarrow> 'a list \<Rightarrow> 'a list" where
  "delete_many P xs = filter (\<lambda>x. \<not> P x) xs"


text \<open>\<open>.sort(key, -1)\<close>: descending by an integer key. MongoDB promises no order among
  equal keys; the model keeps them in insertion order.\<close>

definition sort_desc :: "('a \<Rightarrow> int) \<Rightarrow> 'a list \<Rightarrow> 'a list" where
  "sort_desc k xs = sort_key (\<lambda>x. - k x) xs"

section \<open>Balance recalculation\<close>

definition update_customer_totals :: "db \<Rightarrow> string \<Rightarrow> db" where
  "update_customer_totals s cid =
     (let entries = to_list 1000 (find_docs (\<lambda>e. customer_id e = cid) (credit_entries s));
          tc = sum_list (map amount entries);
          tp = sum_list (map paid_amount entries);
          ob = tc - tp
      in s\<lparr>customers :=
            update_one (\<lambda>c. cust_id c = cid)
              (\<lambda>c. c\<lparr>total_credit := tc, total_paid := tp, outstanding_balance := ob\<rparr>)
              (customers s)\<rparr>)"

section \<open>Customer routes\<close>

text \<open>Validation of the request body against \<open>CustomerCreate\<close>: \<open>name: str\<close> is required
  and carries no other constraint.\<close>

definition validate_CustomerCreate :: "CustomerBody \<Rightarrow> error + CustomerCreate" where
  "validate_CustomerCreate b =
     (case body_name b of
        None \<Rightarrow> Inl ValidationError
      | Some n \<Rightarrow> Inr \<lparr>cc_name = n, cc_phone = body_phone b, cc_address = body_address b\<rparr>)"

definition create_customer :: "db \<Rightarrow> CustomerCreate \<Rightarrow> string \<Rightarrow> datetime \<Rightarrow> db \<times> Customer" where
  "create_customer s customer new_id now =
     (let customer_obj =
            \<lparr>cust_id = new_id, name = cc_name customer, phone = cc_phone customer,
             address = cc_address customer, cust_created_at = now,
             total_credit = 0, total_paid = 0, outstanding_balance = 0\<rparr>
      in (s\<lparr>customers := insert_one customer_obj (customers s)\<rparr>, customer_obj))"

text \<open>\<open>POST /api/customers\<close>: validation, then the handler.\<close>

definition post_customers :: "db \<Rightarrow> CustomerBody \<Rightarrow> string \<Rightarrow> datetime \<Rightarrow> Customer response" where
  "post_customers s b new_id now =
     (case validate_CustomerCreate b of
        Inl e \<Rightarrow> Inl (e, s)
      | Inr customer \<Rightarrow> Inr (create_customer s customer new_id now))"

definition get_customers :: "db \<Rightarrow> Customer list" where
  "get_customers s = to_list 1000 (sort_desc cust_created_at (customers s))"

definition get_customer :: "db \<Rightarrow> string \<Rightarrow> error + Customer" where
  "get_customer s cid =
     (case find_one (\<lambda>c. cust_id c = cid) (customers s) of
        None \<Rightarrow> Inl (NotFound ''Customer not found'')
      | Some customer \<Rightarrow> Inr customer)"


definition delete_customer :: "db \<Rightarrow> string \<Rightarrow> error \<times> db + db" where
  "delete_customer s cid =
     (case delete_one (\<lambda>c. cust_id c = cid) (customers s) of
        (deleted_count, cs) \<Rightarrow>
          if deleted_count = 0 then Inl (NotFound ''Customer not found'', s\<lparr>customers := cs\<rparr>)
          else Inr (s\<lparr>customers := cs,
                      credit_entries :=
                        delete_many (\<lambda>e. customer_id e = cid) (credit_entries s)\<rparr>))"

section \<open>Credit entry routes\<close>

definition create_credit_entry ::
  "db \<Rightarrow> CreditEntryCreate \<Rightarrow> string \<Rightarrow> datetime \<Rightarrow> CreditEntry response" where
  "create_credit_entry s entry new_id now =
     (case find_one (\<lambda>c. cust_id c = ec_customer_id entry) (customers s) of
        None \<Rightarrow> Inl (NotFound ''Customer not found'', s)
      | Some customer \<Rightarrow>
          (let entry_obj =
                 \<lparr>entry_id = new_id, customer_id = ec_customer_id entry,
                  amount = ec_amount entry, description = ec_description entry,
                  date = ec_date entry, image_data = ec_image_data entry,
                  is_paid = False, paid_amount = 0, entry_created_at = now\<rparr>;
               s1 = s\<lparr>credit_entries := insert_one entry_obj (credit_entries s)\<rparr>
           in Inr (update_customer_totals s1 (ec_customer_id entry), entry_obj)))"

definition get_credit_entries :: "db \<Rightarrow> string \<Rightarrow> error + CreditEntry list" where
  "get_credit_entries s cid =
     Inr (to_list 1000
            (sort_desc date (find_docs (\<lambda>e. customer_id e = cid) (credit_entries s))))"

text \<open>\<open>update_data = {k: v for k, v in entry_update.dict().items() if v is not None}\<close>
  applied by \<open>$set\<close>: a field is written exactly when its value is not \<open>None\<close>.\<close>

definition set_update_data :: "CreditEntryUpdate \<Rightarrow> CreditEntry \<Rightarrow> CreditEntry" where
  "set_update_data u e =
     e\<lparr>amount := (case eu_amount u of None \<Rightarrow> amount e | Some v \<Rightarrow> v),
       description := (case eu_description u of None \<Rightarrow> description e | Some v \<Rightarrow> Some v),
       date := (case eu_date u of None \<Rightarrow> date e | Some v \<Rightarrow> v),
       is_paid := (case eu_is_paid u of None \<Rightarrow> is_paid e | Some v \<Rightarrow> v),
       paid_amount := (case eu_paid_amount u of None \<Rightarrow> paid_amount e | Some v \<Rightarrow> v)\<rparr>"

definition update_credit_entry ::
  "db \<Rightarrow> string \<Rightarrow> CreditEntryUpdate \<Rightarrow> CreditEntry response" where
  "update_credit_entry s eid entry_update =
     (case find_one (\<lambda>e. entry_id e = eid) (credit_entries s) of
        None \<Rightarrow> Inl (NotFound ''Credit entry not found'', s)
      | Some entry \<Rightarrow>
          (let s1 = s\<lparr>credit_entries :=
                      update_one (\<lambda>e. entry_id e = eid) (set_update_data entry_update)
                        (credit_entries s)\<rparr>
           in (case find_one (\<lambda>e. entry_id e = eid) (credit_entries s1) of
                 None \<Rightarrow> Inl (InternalError, s1)
               | Some updated_entry \<Rightarrow>
                   Inr (update_customer_totals s1 (customer_id entry), updated_entry))))"


definition delete_credit_entry :: "db \<Rightarrow> string \<Rightarrow> error \<times> db + db" where
  "delete_credit_entry s eid =
     (case find_one (\<lambda>e. entry_id e = eid) (credit_entries s) of
        None \<Rightarrow> Inl (NotFound ''Credit entry not found'', s)
      | Some entry \<Rightarrow>
          (case delete_one (\<lambda>e. entry_id e = eid) (credit_entries s) of
             (deleted_count, es) \<Rightarrow>
               if deleted_count = 0 then Inl (NotFound ''Credit entry not found'', s\<lparr>credit_entries := es\<rparr>)
               else Inr (update_customer_totals (s\<lparr>credit_entries := es\<rparr>)
                           (customer_id entry))))"

section \<open>Dashboard\<close>


section \<open>Vocabulary of the specification\<close>

text \<open>
  The entry set of a customer, a customer record carrying the totals of a list of entries,
  and the balance equation \<open>outstanding_balance == total_credit - total_paid\<close>.
  \<open>totals_match s cid c\<close> says that the record stored under \<open>cid\<close> is \<open>c\<close> with the
  totals of the entries the recalculation fetches, the first 1000 of the customer's entries.
\<close>

definition entries_of :: "db \<Rightarrow> string \<Rightarrow> CreditEntry list" where
  "entries_of s cid = filter (\<lambda>e. customer_id e = cid) (credit_entries s)"

definition with_totals :: "CreditEntry list \<Rightarrow> Customer \<Rightarrow> Customer" where
  "with_totals es c =
     c\<lparr>total_credit := sum_list (map amount es),
       total_paid := sum_list (map paid_amount es),
       outstanding_balance := sum_list (map amount es) - sum_list (map paid_amount es)\<rparr>"

definition totals_match :: "db \<Rightarrow> string \<Rightarrow> Customer \<Rightarrow> bool" where
  "totals_match s' cid c \<longleftrightarrow>
     find_one (\<lambda>x. cust_id x = cid) (customers s') =
       Some (with_totals (take 1000 (entries_of s' cid)) c)"

definition balance_consistent :: "Customer \<Rightarrow> bool" where
  "balance_consistent c \<longleftrightarrow> outstanding_balance c = total_credit c - total_paid c"

definition balance_invariant :: "db \<Rightarrow> bool" where
  "balance_invariant s \<longleftrightarrow> (\<forall>c\<in>set (customers s). balance_consistent c)"

section \<open>Concrete stores\<close>

text \<open>
  A store with the customer and the first entry of the specification's end-to-end
  scenario, the requests of that scenario, and the stores they lead to.
\<close>

definition w_customer :: Customer where
  "w_customer =
     \<lparr>cust_id = ''c1'', name = ''Rajesh Kumar'', phone = None, address = None,
      cust_created_at = 0, total_credit = 5000, total_paid = 0, outstanding_balance = 5000\<rparr>"

definition w_entry :: CreditEntry where
  "w_entry =
     \<lparr>entry_id = ''e1'', customer_id = ''c1'', amount = 5000,
      description = Some ''Grocery supplies'', date = 1, image_data = None,
      is_paid = False, paid_amount = 0, entry_created_at = 1\<rparr>"

definition w_db :: db where
  "w_db = \<lparr>customers = [w_customer], credit_entries = [w_entry]\<rparr>"

definition w_create :: CreditEntryCreate where
  "w_create =
     \<lparr>ec_customer_id = ''c1'', ec_amount = 2500, ec_description = Some ''Hardware items'',
      ec_date = 2, ec_image_data = None\<rparr>"

definition w_entry2 :: CreditEntry where
  "w_entry2 =
     \<lparr>entry_id = ''e2'', customer_id = ''c1'', amount = 2500,
      description = Some ''Hardware items'', date = 2, image_data = None,
      is_paid = False, paid_amount = 0, entry_created_at = 3\<rparr>"

definition w_update :: CreditEntryUpdate where
  "w_update =
     \<lparr>eu_amount = Some 6500, eu_description = None, eu_date = None, eu_is_paid = None,
      eu_paid_amount = None\<rparr>"

definition w_payment :: PaymentUpdate where
  "w_payment = \<lparr>pu_is_paid = True, pu_paid_amount = 5000\<rparr>"

definition w_db_created :: db where
  "w_db_created =
     \<lparr>customers = [w_customer\<lparr>total_credit := 7500, total_paid := 0,
                                 outstanding_balance := 7500\<rparr>],
      credit_entries = [w_entry, w_entry2]\<rparr>"

definition w_db_updated :: db where
  "w_db_updated =
     \<lparr>customers = [w_customer\<lparr>total_credit := 6500, total_paid := 0,
                                 outstanding_balance := 6500\<rparr>],
      credit_entries = [w_entry\<lparr>amount := 6500\<rparr>]\<rparr>"

definition w_db_paid :: db where
  "w_db_paid =
     \<lparr>customers = [w_customer\<lparr>total_credit := 5000, total_paid := 5000,
                                 outstanding_balance := 0\<rparr>],
      credit_entries = [w_entry\<lparr>is_paid := True, paid_amount := 5000\<rparr>]\<rparr>"

definition w_db_deleted :: db where
  "w_db_deleted =
     \<lparr>customers = [w_customer\<lparr>total_credit := 0, total_paid := 0,
                                 outstanding_balance := 0\<rparr>],
      credit_entries = []\<rparr>"

definition w_describe :: CreditEntryUpdate where
  "w_describe =
     \<lparr>eu_amount = None, eu_description = Some ''Rice and flour'', eu_date = None,
      eu_is_paid = None, eu_paid_amount = None\<rparr>"

definition w_body :: CustomerBody where
  "w_body = \<lparr>body_name = Some ''Rajesh Kumar'', body_phone = None, body_address = None\<rparr>"

definition w_new_customer :: Customer where
  "w_new_customer =
     \<lparr>cust_id = ''c2'', name = ''Rajesh Kumar'', phone = None, address = None,
      cust_created_at = 7, total_credit = 0, total_paid = 0, outstanding_balance = 0\<rparr>"



text \<open>
  Stores beyond the fetch cap: one customer who owns 1000 entries of amount 1 and is sent
  one more, and 1001 customers who owe 1 each. A request body whose name is the empty
  string.
\<close>

definition busy_entry :: "nat \<Rightarrow> CreditEntry" where
  "busy_entry i =
     \<lparr>entry_id = replicate (Suc i) CHR ''e'', customer_id = ''c1'', amount = 1,
      description = None, date = int i, image_data = None, is_paid = False, paid_amount = 0,
      entry_created_at = int i\<rparr>"

definition busy_entries :: "nat \<Rightarrow> CreditEntry list" where
  "busy_entries n = map busy_entry [0..<n]"






definition many_customer :: "nat \<Rightarrow> Customer" where
  "many_customer i =
     \<lparr>cust_id = replicate (Suc i) CHR ''c'', name = ''Customer'', phone = None, address = None,
      cust_created_at = int i, total_credit = 1, total_paid = 0, outstanding_balance = 1\<rparr>"

definition many_customers :: "nat \<Rightarrow> Customer list" where
  "many_customers n = map many_customer [0..<n]"



definition empty_name_body :: CustomerBody where
  "empty_name_body = \<lparr>body_name = Some [], body_phone = None, body_address = None\<rparr>"

definition empty_name_customer :: Customer where
  "empty_name_customer =
     \<lparr>cust_id = ''c2'', name = [], phone = None, address = None,
      cust_created_at = 7, total_credit = 0, total_paid = 0, outstanding_balance = 0\<rparr>"

section \<open>Facts about the store primitives and the recalculation\<close>

lemma find_one_None_iff: "find_one P xs = None \<longleftrightarrow> (\<forall>x\<in>set xs. \<not> P x)"
  by (induction xs) auto

lemma find_one_SomeD: "find_one P xs = Some x \<Longrightarrow> P x \<and> x \<in> set xs"
  by (induction xs) (auto split: if_splits)

lemma find_one_update_one:
  "(\<And>x. P x \<Longrightarrow> P (f x)) \<Longrightarrow> find_one P (update_one P f xs) = map_option f (find_one P xs)"
  by (induction xs) auto

lemma update_one_twice:
  "(\<And>x. P x \<Longrightarrow> P (f x)) \<Longrightarrow> update_one P g (update_one P f xs) = update_one P (g \<circ> f) xs"
  by (induction xs) auto

lemma list_all_update_one:
  "list_all I xs \<Longrightarrow> (\<And>x. I x \<Longrightarrow> I (f x)) \<Longrightarrow> list_all I (update_one P f xs)"
  by (induction xs) auto

lemma delete_one_count: "fst (delete_one P xs) = 0 \<longleftrightarrow> find_one P xs = None"
  by (induction xs) (auto split: prod.splits)

lemma delete_one_remove1:
  "find_one P xs = Some x \<Longrightarrow> delete_one P xs = (1, remove1 x xs)"
  by (induction xs) (auto split: prod.splits if_splits dest: find_one_SomeD)

lemma delete_one_None: "find_one P xs = None \<Longrightarrow> delete_one P xs = (0, xs)"
  by (induction xs) (auto split: prod.splits if_splits)

lemma credit_entries_update_customer_totals [simp]:
  "credit_entries (update_customer_totals s cid) = credit_entries s"
  by (simp add: update_customer_totals_def Let_def)

lemma update_customer_totals_found:
  assumes "find_one (\<lambda>c. cust_id c = cid) (customers s) = Some c"
  shows "find_one (\<lambda>c. cust_id c = cid) (customers (update_customer_totals s cid)) =
     Some (c\<lparr>total_credit :=
                sum_list (map amount (take 1000 (filter (\<lambda>e. customer_id e = cid) (credit_entries s)))),
              total_paid :=
                sum_list (map paid_amount (take 1000 (filter (\<lambda>e. customer_id e = cid) (credit_entries s)))),
              outstanding_balance :=
                sum_list (map amount (take 1000 (filter (\<lambda>e. customer_id e = cid) (credit_entries s))))
                - sum_list (map paid_amount (take 1000 (filter (\<lambda>e. customer_id e = cid) (credit_entries s))))\<rparr>)"
  using assms
  by (simp add: update_customer_totals_def Let_def find_one_update_one to_list_def find_docs_def)

lemma recalculated_customer:
  "find_one (\<lambda>c. cust_id c = cid) (customers s) = Some c \<Longrightarrow>
   find_one (\<lambda>c. cust_id c = cid) (customers (update_customer_totals s cid)) =
     Some (with_totals (take 1000 (entries_of s cid)) c)"
  by (simp add: update_customer_totals_found with_totals_def entries_of_def)

lemma entries_of_update_customer_totals [simp]:
  "entries_of (update_customer_totals s cid) cid' = entries_of s cid'"
  by (simp add: entries_of_def)

lemma entries_of_upd_entries [simp]:
  "entries_of (s\<lparr>credit_entries := es\<rparr>) cid = filter (\<lambda>e. customer_id e = cid) es"
  by (simp add: entries_of_def)

lemma entries_of_upd [simp]:
  "entries_of (s\<lparr>customers := cs\<rparr>) cid = entries_of s cid"
  by (simp add: entries_of_def)

lemma create_credit_entry_totals:
  assumes "find_one (\<lambda>c. cust_id c = cid) (customers s) = Some c"
      and "ec_customer_id entry = cid"
      and "create_credit_entry s entry new_id now = Inr (s', r)"
  shows "find_one (\<lambda>c. cust_id c = cid) (customers s') =
           Some (with_totals (take 1000 (entries_of s' cid)) c)"
proof -
  let ?s1 = "s\<lparr>credit_entries := insert_one r (credit_entries s)\<rparr>"
  from assms have s': "s' = update_customer_totals ?s1 cid"
    by (auto simp: create_credit_entry_def Let_def)
  have "find_one (\<lambda>c. cust_id c = cid) (customers ?s1) = Some c"
    using assms(1) by simp
  from recalculated_customer [OF this] show ?thesis
    unfolding s' by simp
qed



lemma delete_credit_entry_totals:
  assumes "find_one (\<lambda>c. cust_id c = cid) (customers s) = Some c"
      and "find_one (\<lambda>e. entry_id e = eid) (credit_entries s) = Some e"
      and "customer_id e = cid"
      and "delete_credit_entry s eid = Inr s'"
  shows "find_one (\<lambda>c. cust_id c = cid) (customers s') =
           Some (with_totals (take 1000 (entries_of s' cid)) c)"
proof -
  let ?s1 = "s\<lparr>credit_entries := remove1 e (credit_entries s)\<rparr>"
  from assms have s': "s' = update_customer_totals ?s1 cid"
    by (auto simp: delete_credit_entry_def delete_one_remove1)
  have "find_one (\<lambda>c. cust_id c = cid) (customers ?s1) = Some c"
    using assms(1) by simp
  from recalculated_customer [OF this] show ?thesis
    unfolding s' by simp
qed

lemma find_one_remove1_distinct:
  "distinct (map k xs) \<Longrightarrow> find_one (\<lambda>x. k x = v) xs = Some c \<Longrightarrow>
   find_one (\<lambda>x. k x = v) (remove1 c xs) = None"
proof (induction xs)
  case Nil
  then show ?case by simp
next
  case (Cons x xs)
  show ?case
  proof (cases "k x = v")
    case True
    from True Cons.prems(2) have "c = x" by simp
    moreover from Cons.prems(1) have "k x \<notin> k ` set xs" by simp
    with True have "\<forall>y\<in>set xs. k y \<noteq> v" by blast
    ultimately have "c = x" and "\<forall>y\<in>set xs. k y \<noteq> v" by blast+
    then show ?thesis by (simp add: find_one_None_iff)
  next
    case False
    with Cons.prems have "find_one (\<lambda>x. k x = v) xs = Some c" and "distinct (map k xs)"
      by auto
    moreover from this have "k c = v" by (auto dest: find_one_SomeD)
    ultimately show ?thesis using False Cons.IH by auto
  qed
qed

lemma find_one_member:
  "distinct (map k xs) \<Longrightarrow> c \<in> set xs \<Longrightarrow> find_one (\<lambda>x. k x = k c) xs = Some c"
  by (induction xs) force+

lemmas w_defs = w_db_def w_customer_def w_entry_def w_entry2_def w_create_def w_update_def
  w_payment_def w_db_created_def w_db_updated_def w_db_paid_def w_db_deleted_def

lemma w_find_customer:
  "find_one (\<lambda>x. cust_id x = ''c1'') (customers w_db) = Some w_customer"
  by (simp add: w_defs)

lemma w_find_entry:
  "find_one (\<lambda>x. entry_id x = ''e1'') (credit_entries w_db) = Some w_entry"
  by (simp add: w_defs)

lemma w_entries_of: "entries_of w_db ''c1'' = [w_entry]"
  by (simp add: entries_of_def w_defs)

lemma w_created: "create_credit_entry w_db w_create ''e2'' 3 = Inr (w_db_created, w_entry2)"
  by (simp add: create_credit_entry_def update_customer_totals_def Let_def insert_one_def
      to_list_def find_docs_def w_defs)



lemma w_deleted: "delete_credit_entry w_db ''e1'' = Inr w_db_deleted"
  by (simp add: delete_credit_entry_def update_customer_totals_def Let_def
      to_list_def find_docs_def w_defs)

lemma zero_totals: "with_totals [] c =
    c\<lparr>total_credit := 0, total_paid := 0, outstanding_balance := 0\<rparr>"
  by (simp add: with_totals_def)





lemma balance_invariant_entries [simp]:
  "balance_invariant (s\<lparr>credit_entries := es\<rparr>) = balance_invariant s"
  by (simp add: balance_invariant_def)











lemma length_many_customers [simp]: "length (many_customers n) = n"
  by (simp add: many_customers_def)



lemma length_busy_entries [simp]: "length (busy_entries n) = n"
  by (simp add: busy_entries_def)

lemma filter_busy_entries [simp]:
  "filter (\<lambda>e. customer_id e = ''c1'') (busy_entries n) = busy_entries n"
  by (simp add: busy_entries_def busy_entry_def filter_map comp_def)


section \<open>The claims\<close>

subsection \<open>Recalculated totals (C1)\<close>




subsection \<open>The balance equation (C2)\<close>



subsection \<open>Idempotence (C3)\<close>

text \<open>
  Claim C3. Recalculation is idempotent: for every store and every customer id, running
  \<open>update_customer_totals\<close> twice in a row, with no write in between, leaves the same
  store (and so the same three totals on every customer) as running it once.
\<close>

theorem update_customer_totals_idempotent:
  "update_customer_totals (update_customer_totals s cid) cid = update_customer_totals s cid"
  by (simp add: update_customer_totals_def Let_def update_one_twice comp_def)

subsection \<open>Dashboard (C4)\<close>




subsection \<open>Cascading delete (C5)\<close>

text \<open>
  Claim C5. Deleting an absent customer id fails with NotFound and leaves the store as it
  was. Deleting a present id
  succeeds, removes the record stored under that id (no record with that id is left when
  ids are distinct), removes exactly the entries whose \<open>customer_id\<close> is that id, and a
  following \<open>get_credit_entries\<close> for the id returns the empty list.
\<close>

theorem delete_customer_cascades:
  "(find_one (\<lambda>x. cust_id x = cid) (customers s) = None \<longrightarrow>
      delete_customer s cid = Inl (NotFound ''Customer not found'', s)) \<and>
   (\<forall>c. find_one (\<lambda>x. cust_id x = cid) (customers s) = Some c \<longrightarrow>
      (\<exists>s'. delete_customer s cid = Inr s' \<and>
            customers s' = remove1 c (customers s) \<and>
            (distinct (map cust_id (customers s)) \<longrightarrow>
               find_one (\<lambda>x. cust_id x = cid) (customers s') = None) \<and>
            credit_entries s' = filter (\<lambda>e. customer_id e \<noteq> cid) (credit_entries s) \<and>
            get_credit_entries s' cid = Inr []))"
proof (intro conjI impI allI)
  assume "find_one (\<lambda>x. cust_id x = cid) (customers s) = None"
  then show "delete_customer s cid = Inl (NotFound ''Customer not found'', s)"
    by (simp add: delete_customer_def delete_one_None)
next
  fix c
  assume c: "find_one (\<lambda>x. cust_id x = cid) (customers s) = Some c"
  let ?s' = "s\<lparr>customers := remove1 c (customers s),
               credit_entries := delete_many (\<lambda>e. customer_id e = cid) (credit_entries s)\<rparr>"
  have d: "delete_customer s cid = Inr ?s'"
    using c by (simp add: delete_customer_def delete_one_remove1)
  have n: "filter (\<lambda>e. customer_id e = cid) (credit_entries ?s') = []"
    by (simp add: delete_many_def)
  have "get_credit_entries ?s' cid = Inr []"
    unfolding get_credit_entries_def find_docs_def n
    by (simp add: sort_desc_def to_list_def)
  with d c show "\<exists>s'. delete_customer s cid = Inr s' \<and>
            customers s' = remove1 c (customers s) \<and>
            (distinct (map cust_id (customers s)) \<longrightarrow>
               find_one (\<lambda>x. cust_id x = cid) (customers s') = None) \<and>
            credit_entries s' = filter (\<lambda>e. customer_id e \<noteq> cid) (credit_entries s) \<and>
            get_credit_entries s' cid = Inr []"
    by (auto simp: delete_many_def find_one_remove1_distinct)
qed

text \<open>
  Deleting the scenario's customer empties both collections; deleting an unknown id is
  NotFound.
\<close>

theorem delete_customer_cascades_witness:
  "find_one (\<lambda>x. cust_id x = ''c1'') (customers w_db) = Some w_customer \<and>
   delete_customer w_db ''c1'' = Inr \<lparr>customers = [], credit_entries = []\<rparr> \<and>
   get_credit_entries \<lparr>customers = [], credit_entries = []\<rparr> ''c1'' = Inr [] \<and>
   find_one (\<lambda>x. cust_id x = ''zz'') (customers w_db) = None \<and>
   delete_customer w_db ''zz'' = Inl (NotFound ''Customer not found'', w_db)"
proof -
  have c: "find_one (\<lambda>x. cust_id x = ''c1'') (customers w_db) = Some w_customer"
    by (simp add: w_db_def w_customer_def)
  have z: "find_one (\<lambda>x. cust_id x = ''zz'') (customers w_db) = None"
    by (simp add: w_db_def w_customer_def)
  have r: "remove1 w_customer (customers w_db) = []"
      "filter (\<lambda>e. customer_id e \<noteq> ''c1'') (credit_entries w_db) = []"
    by (simp_all add: w_db_def w_entry_def)
  from delete_customer_cascades [of "''c1''" w_db] c r
  obtain s' where s': "delete_customer w_db ''c1'' = Inr s'" "customers s' = []"
      "credit_entries s' = []" "get_credit_entries s' ''c1'' = Inr []"
    by auto
  then have "s' = \<lparr>customers = [], credit_entries = []\<rparr>" by (cases s') simp
  with s' c z delete_customer_cascades [of "''zz''" w_db] show ?thesis by simp
qed

subsection \<open>Entry creation (C6)\<close>

text \<open>
  Claim C6. Creating an entry for a \<open>customer_id\<close> that no customer has fails with
  NotFound and leaves the store, and so the entry collection, as it was. For an
  existing customer the call succeeds, the entry appended to the collection has the
  generated id and \<open>created_at\<close>, the request's fields, \<open>is_paid = False\<close> and
  \<open>paid_amount = 0\<close>, and the customers of the returned store are those of the
  recalculation run after the insert, so the owner's stored totals match its entries.
\<close>

theorem create_credit_entry_checks_customer:
  "(find_one (\<lambda>x. cust_id x = ec_customer_id entry) (customers s) = None \<longrightarrow>
      create_credit_entry s entry new_id now = Inl (NotFound ''Customer not found'', s)) \<and>
   (\<forall>c. find_one (\<lambda>x. cust_id x = ec_customer_id entry) (customers s) = Some c \<longrightarrow>
      (\<exists>s' e. create_credit_entry s entry new_id now = Inr (s', e) \<and>
         e = \<lparr>entry_id = new_id, customer_id = ec_customer_id entry, amount = ec_amount entry,
              description = ec_description entry, date = ec_date entry,
              image_data = ec_image_data entry, is_paid = False, paid_amount = 0,
              entry_created_at = now\<rparr> \<and>
         credit_entries s' = credit_entries s @ [e] \<and>
         customers s' =
           customers (update_customer_totals (s\<lparr>credit_entries := credit_entries s @ [e]\<rparr>)
             (ec_customer_id entry)) \<and>
         totals_match s' (ec_customer_id entry) c))"
proof (intro conjI impI allI)
  assume "find_one (\<lambda>x. cust_id x = ec_customer_id entry) (customers s) = None"
  then show "create_credit_entry s entry new_id now = Inl (NotFound ''Customer not found'', s)"
    by (simp add: create_credit_entry_def)
next
  fix c
  assume c: "find_one (\<lambda>x. cust_id x = ec_customer_id entry) (customers s) = Some c"
  let ?e = "\<lparr>entry_id = new_id, customer_id = ec_customer_id entry, amount = ec_amount entry,
              description = ec_description entry, date = ec_date entry,
              image_data = ec_image_data entry, is_paid = False, paid_amount = 0,
              entry_created_at = now\<rparr>"
  let ?s' = "update_customer_totals (s\<lparr>credit_entries := credit_entries s @ [?e]\<rparr>)
               (ec_customer_id entry)"
  have r: "create_credit_entry s entry new_id now = Inr (?s', ?e)"
    using c by (simp add: create_credit_entry_def Let_def insert_one_def)
  from create_credit_entry_totals [OF c refl r]
  have "totals_match ?s' (ec_customer_id entry) c" by (simp add: totals_match_def)
  with r show "\<exists>s' e. create_credit_entry s entry new_id now = Inr (s', e) \<and>
         e = ?e \<and>
         credit_entries s' = credit_entries s @ [e] \<and>
         customers s' =
           customers (update_customer_totals (s\<lparr>credit_entries := credit_entries s @ [e]\<rparr>)
             (ec_customer_id entry)) \<and>
         totals_match s' (ec_customer_id entry) c"
    by simp
qed

text \<open>
  The scenario's second entry is created for the existing customer; the same request for
  an unknown customer is NotFound.
\<close>

theorem create_credit_entry_checks_customer_witness:
  "find_one (\<lambda>x. cust_id x = ec_customer_id w_create) (customers w_db) = Some w_customer \<and>
   create_credit_entry w_db w_create ''e2'' 3 = Inr (w_db_created, w_entry2) \<and>
   is_paid w_entry2 = False \<and> paid_amount w_entry2 = 0 \<and>
   credit_entries w_db_created = credit_entries w_db @ [w_entry2] \<and>
   totals_match w_db_created (ec_customer_id w_create) w_customer \<and>
   find_one (\<lambda>x. cust_id x = ec_customer_id (w_create\<lparr>ec_customer_id := ''zz''\<rparr>))
     (customers w_db) = None \<and>
   create_credit_entry w_db (w_create\<lparr>ec_customer_id := ''zz''\<rparr>) ''e2'' 3 =
     Inl (NotFound ''Customer not found'', w_db)"
proof -
  have c: "find_one (\<lambda>x. cust_id x = ec_customer_id w_create) (customers w_db) = Some w_customer"
    by (simp add: w_defs)
  have z: "find_one (\<lambda>x. cust_id x = ec_customer_id (w_create\<lparr>ec_customer_id := ''zz''\<rparr>))
     (customers w_db) = None"
    by (simp add: w_defs)
  from create_credit_entry_checks_customer [of w_create w_db "''e2''" 3] c w_created
  have "totals_match w_db_created (ec_customer_id w_create) w_customer"
    by auto
  moreover from create_credit_entry_checks_customer
    [of "w_create\<lparr>ec_customer_id := ''zz''\<rparr>" w_db "''e2''" 3] z
  have "create_credit_entry w_db (w_create\<lparr>ec_customer_id := ''zz''\<rparr>) ''e2'' 3 =
     Inl (NotFound ''Customer not found'', w_db)"
    by blast
  moreover have "is_paid w_entry2 = False" "paid_amount w_entry2 = 0"
    "credit_entries w_db_created = credit_entries w_db @ [w_entry2]"
    by (simp_all add: w_defs)
  ultimately show ?thesis using c z w_created by (intro conjI)
qed

subsection \<open>Partial update (C7)\<close>

text \<open>
  Claim C7. A partial update of an absent entry fails with NotFound and leaves the store
  as it was. On an existing entry
  it succeeds and the stored entry takes the value of every field of the request that is
  not \<open>None\<close>, and keeps its prior \<open>amount\<close>, \<open>description\<close>, \<open>date\<close>, \<open>is_paid\<close> and
  \<open>paid_amount\<close> where the request has \<open>None\<close>, and its \<open>id\<close>, \<open>customer_id\<close>,
  \<open>image_data\<close> and \<open>created_at\<close> in every case. A request with only a description
  changes the description and nothing else.
\<close>

theorem update_credit_entry_partial:
  "(find_one (\<lambda>x. entry_id x = eid) (credit_entries s) = None \<longrightarrow>
      update_credit_entry s eid u = Inl (NotFound ''Credit entry not found'', s)) \<and>
   (\<forall>e. find_one (\<lambda>x. entry_id x = eid) (credit_entries s) = Some e \<longrightarrow>
      (\<exists>s' e'. update_credit_entry s eid u = Inr (s', e') \<and>
         find_one (\<lambda>x. entry_id x = eid) (credit_entries s') = Some e' \<and>
         amount e' = (case eu_amount u of None \<Rightarrow> amount e | Some v \<Rightarrow> v) \<and>
         description e' = (case eu_description u of None \<Rightarrow> description e | Some v \<Rightarrow> Some v) \<and>
         date e' = (case eu_date u of None \<Rightarrow> date e | Some v \<Rightarrow> v) \<and>
         is_paid e' = (case eu_is_paid u of None \<Rightarrow> is_paid e | Some v \<Rightarrow> v) \<and>
         paid_amount e' = (case eu_paid_amount u of None \<Rightarrow> paid_amount e | Some v \<Rightarrow> v) \<and>
         entry_id e' = entry_id e \<and> customer_id e' = customer_id e \<and>
         image_data e' = image_data e \<and> entry_created_at e' = entry_created_at e \<and>
         (\<forall>d. u = \<lparr>eu_amount = None, eu_description = Some d, eu_date = None,
                   eu_is_paid = None, eu_paid_amount = None\<rparr> \<longrightarrow>
              e' = e\<lparr>description := Some d\<rparr>)))"
proof (intro conjI impI allI)
  assume "find_one (\<lambda>x. entry_id x = eid) (credit_entries s) = None"
  then show "update_credit_entry s eid u = Inl (NotFound ''Credit entry not found'', s)"
    by (simp add: update_credit_entry_def)
next
  fix e
  assume e: "find_one (\<lambda>x. entry_id x = eid) (credit_entries s) = Some e"
  let ?es = "update_one (\<lambda>x. entry_id x = eid) (set_update_data u) (credit_entries s)"
  let ?s' = "update_customer_totals (s\<lparr>credit_entries := ?es\<rparr>) (customer_id e)"
  have "entry_id (set_update_data u x) = entry_id x" for x
    by (simp add: set_update_data_def)
  then have f: "find_one (\<lambda>x. entry_id x = eid) ?es = Some (set_update_data u e)"
    using e by (simp add: find_one_update_one)
  then have r: "update_credit_entry s eid u = Inr (?s', set_update_data u e)"
    using e by (simp add: update_credit_entry_def Let_def)
  have "find_one (\<lambda>x. entry_id x = eid) (credit_entries ?s') = Some (set_update_data u e)"
    using f by simp
  with r show "\<exists>s' e'. update_credit_entry s eid u = Inr (s', e') \<and>
         find_one (\<lambda>x. entry_id x = eid) (credit_entries s') = Some e' \<and>
         amount e' = (case eu_amount u of None \<Rightarrow> amount e | Some v \<Rightarrow> v) \<and>
         description e' = (case eu_description u of None \<Rightarrow> description e | Some v \<Rightarrow> Some v) \<and>
         date e' = (case eu_date u of None \<Rightarrow> date e | Some v \<Rightarrow> v) \<and>
         is_paid e' = (case eu_is_paid u of None \<Rightarrow> is_paid e | Some v \<Rightarrow> v) \<and>
         paid_amount e' = (case eu_paid_amount u of None \<Rightarrow> paid_amount e | Some v \<Rightarrow> v) \<and>
         entry_id e' = entry_id e \<and> customer_id e' = customer_id e \<and>
         image_data e' = image_data e \<and> entry_created_at e' = entry_created_at e \<and>
         (\<forall>d. u = \<lparr>eu_amount = None, eu_description = Some d, eu_date = None,
                   eu_is_paid = None, eu_paid_amount = None\<rparr> \<longrightarrow>
              e' = e\<lparr>description := Some d\<rparr>)"
    by (simp add: set_update_data_def)
qed

text \<open>
  Updating only the description of the scenario's entry; updating an unknown entry.
\<close>

theorem update_credit_entry_partial_witness:
  "find_one (\<lambda>x. entry_id x = ''e1'') (credit_entries w_db) = Some w_entry \<and>
   (\<exists>s'. update_credit_entry w_db ''e1'' w_describe =
            Inr (s', w_entry\<lparr>description := Some ''Rice and flour''\<rparr>)) \<and>
   find_one (\<lambda>x. entry_id x = ''zz'') (credit_entries w_db) = None \<and>
   update_credit_entry w_db ''zz'' w_describe =
     Inl (NotFound ''Credit entry not found'', w_db)"
proof -
  have z: "find_one (\<lambda>x. entry_id x = ''zz'') (credit_entries w_db) = None"
    by (simp add: w_defs)
  from update_credit_entry_partial [of "''e1''" w_db w_describe] w_find_entry
  have "\<exists>s'. update_credit_entry w_db ''e1'' w_describe =
            Inr (s', w_entry\<lparr>description := Some ''Rice and flour''\<rparr>)"
    unfolding w_describe_def by blast
  moreover from update_credit_entry_partial [of "''zz''" w_db w_describe] z
  have "update_credit_entry w_db ''zz'' w_describe =
     Inl (NotFound ''Credit entry not found'', w_db)"
    by blast
  ultimately show ?thesis using w_find_entry z by (intro conjI)
qed

subsection \<open>Customer creation (C8)\<close>

text \<open>
  Claim C8, amended. \<open>POST /api/customers\<close> fails with a ValidationError when \<open>name\<close> is
  missing, and writes nothing; when \<open>name\<close> is present, whatever string it is, it succeeds and appends a
  customer with the generated id, the current timestamp, the request's fields and the
  three totals at 0.
\<close>

theorem post_customers_requires_name:
  "(body_name b = None \<longrightarrow> post_customers s b new_id now = Inl (ValidationError, s)) \<and>
   (\<forall>n. body_name b = Some n \<longrightarrow>
      (\<exists>c. post_customers s b new_id now = Inr (s\<lparr>customers := customers s @ [c]\<rparr>, c) \<and>
           c = \<lparr>cust_id = new_id, name = n, phone = body_phone b, address = body_address b,
                cust_created_at = now, total_credit = 0, total_paid = 0,
                outstanding_balance = 0\<rparr>))"
  by (simp add: post_customers_def validate_CustomerCreate_def create_customer_def Let_def
      insert_one_def)

text \<open>
  A body with a name creates the customer; the same body without its name is rejected.
\<close>

theorem post_customers_requires_name_witness:
  "body_name w_body = Some ''Rajesh Kumar'' \<and>
   post_customers w_db w_body ''c2'' 7 =
     Inr (w_db\<lparr>customers := customers w_db @ [w_new_customer]\<rparr>, w_new_customer) \<and>
   body_name (w_body\<lparr>body_name := None\<rparr>) = None \<and>
   post_customers w_db (w_body\<lparr>body_name := None\<rparr>) ''c2'' 7 =
     Inl (ValidationError, w_db)"
proof -
  have n: "body_name w_body = Some ''Rajesh Kumar''" "body_phone w_body = None"
      "body_address w_body = None" "body_name (w_body\<lparr>body_name := None\<rparr>) = None"
    by (simp_all add: w_body_def)
  from post_customers_requires_name [of w_body w_db "''c2''" 7] n
  have "post_customers w_db w_body ''c2'' 7 =
     Inr (w_db\<lparr>customers := customers w_db @ [w_new_customer]\<rparr>, w_new_customer)"
    by (simp add: w_new_customer_def)
  moreover from post_customers_requires_name [of "w_body\<lparr>body_name := None\<rparr>" w_db "''c2''" 7]
  have "post_customers w_db (w_body\<lparr>body_name := None\<rparr>) ''c2'' 7 =
     Inl (ValidationError, w_db)"
    using n by blast
  ultimately show ?thesis using n by (intro conjI)
qed

text \<open>
  Claim C8 as stated fails on the empty name: \<open>name: str\<close> has no length constraint, and
  a body whose name is the empty string creates a customer with an empty name.
\<close>

theorem post_customers_empty_name_counterexample:
  "body_name empty_name_body = Some [] \<and>
   post_customers \<lparr>customers = [], credit_entries = []\<rparr> empty_name_body ''c2'' 7 =
     Inr (\<lparr>customers = [empty_name_customer], credit_entries = []\<rparr>, empty_name_customer) \<and>
   name empty_name_customer = []"
  by (simp add: post_customers_def validate_CustomerCreate_def create_customer_def Let_def
      insert_one_def empty_name_body_def empty_name_customer_def)

subsection \<open>Listing entries (C9)\<close>

text \<open>
  Claim C9. For a \<open>customer_id\<close> that no customer has and no entry refers to,
  \<open>get_credit_entries\<close> returns the empty list; it never returns an error, and its
  result does not depend on the customers collection.
\<close>

theorem get_credit_entries_no_existence_check:
  "(find_one (\<lambda>x. cust_id x = cid) (customers s) = None \<and>
    (\<forall>e\<in>set (credit_entries s). customer_id e \<noteq> cid) \<longrightarrow>
      get_credit_entries s cid = Inr []) \<and>
   get_credit_entries (s\<lparr>customers := cs\<rparr>) cid = get_credit_entries s cid \<and>
   (\<exists>es. get_credit_entries s cid = Inr es)"
proof -
  have "filter (\<lambda>e. customer_id e = cid) (credit_entries s) = []"
    if "\<forall>e\<in>set (credit_entries s). customer_id e \<noteq> cid"
    using that by (simp add: filter_empty_conv)
  then show ?thesis
    by (simp add: get_credit_entries_def find_docs_def sort_desc_def to_list_def)
qed

text \<open>
  Listing the entries of an unknown customer in the scenario's store.
\<close>

theorem get_credit_entries_no_existence_check_witness:
  "find_one (\<lambda>x. cust_id x = ''zz'') (customers w_db) = None \<and>
   list_all (\<lambda>e. customer_id e \<noteq> ''zz'') (credit_entries w_db) \<and>
   get_credit_entries w_db ''zz'' = Inr []"
proof -
  have z: "find_one (\<lambda>x. cust_id x = ''zz'') (customers w_db) = None"
    by (simp add: w_defs)
  have n: "\<forall>e\<in>set (credit_entries w_db). customer_id e \<noteq> ''zz''"
    by (simp add: w_defs)
  from get_credit_entries_no_existence_check [of "''zz''" w_db] z n
  have "get_credit_entries w_db ''zz'' = Inr []" by blast
  with z n show ?thesis by (simp add: list_all_iff)
qed

subsection \<open>Customers without entries (C10)\<close>

text \<open>
  Claim C10. Recalculating a stored customer who owns no entry sets \<open>total_credit\<close>,
  \<open>total_paid\<close> and \<open>outstanding_balance\<close> to 0 and leaves the other fields; and when an
  entry is the only one its customer owns, deleting it succeeds, leaves the customer
  without entries and with the three totals at 0.
\<close>

theorem no_entries_zero_totals:
  assumes "find_one (\<lambda>x. cust_id x = cid) (customers s) = Some c"
  shows "(entries_of s cid = [] \<longrightarrow>
            find_one (\<lambda>x. cust_id x = cid) (customers (update_customer_totals s cid)) =
              Some (c\<lparr>total_credit := 0, total_paid := 0, outstanding_balance := 0\<rparr>)) \<and>
         (find_one (\<lambda>x. entry_id x = eid) (credit_entries s) = Some e \<and>
          entries_of s cid = [e] \<longrightarrow>
            (\<exists>s'. delete_credit_entry s eid = Inr s' \<and> entries_of s' cid = [] \<and>
               find_one (\<lambda>x. cust_id x = cid) (customers s') =
                 Some (c\<lparr>total_credit := 0, total_paid := 0, outstanding_balance := 0\<rparr>)))"
proof (intro conjI impI)
  assume "entries_of s cid = []"
  with recalculated_customer [OF assms]
  show "find_one (\<lambda>x. cust_id x = cid) (customers (update_customer_totals s cid)) =
      Some (c\<lparr>total_credit := 0, total_paid := 0, outstanding_balance := 0\<rparr>)"
    by (simp add: zero_totals)
next
  assume a: "find_one (\<lambda>x. entry_id x = eid) (credit_entries s) = Some e \<and>
    entries_of s cid = [e]"
  then have e: "find_one (\<lambda>x. entry_id x = eid) (credit_entries s) = Some e"
    and es: "filter (\<lambda>x. customer_id x = cid) (credit_entries s) = [e]"
    by (simp_all add: entries_of_def)
  from es have "e \<in> set (filter (\<lambda>x. customer_id x = cid) (credit_entries s))" by simp
  then have owner: "customer_id e = cid" by simp
  let ?s1 = "s\<lparr>credit_entries := remove1 e (credit_entries s)\<rparr>"
  have d: "delete_credit_entry s eid = Inr (update_customer_totals ?s1 cid)"
    using e owner by (simp add: delete_credit_entry_def delete_one_remove1)
  have "filter (\<lambda>x. customer_id x = cid) (remove1 e (credit_entries s)) = remove1 e [e]"
    using es by (simp add: filter_remove1)
  then have none: "entries_of (update_customer_totals ?s1 cid) cid = []" by simp
  from delete_credit_entry_totals [OF assms e owner d] none
  have "find_one (\<lambda>x. cust_id x = cid) (customers (update_customer_totals ?s1 cid)) =
      Some (c\<lparr>total_credit := 0, total_paid := 0, outstanding_balance := 0\<rparr>)"
    by (simp add: zero_totals)
  with d none show "\<exists>s'. delete_credit_entry s eid = Inr s' \<and> entries_of s' cid = [] \<and>
      find_one (\<lambda>x. cust_id x = cid) (customers s') =
        Some (c\<lparr>total_credit := 0, total_paid := 0, outstanding_balance := 0\<rparr>)"
    by blast
qed

text \<open>
  Deleting the only entry of the scenario's customer, and recalculating the customer
  afterwards.
\<close>

theorem no_entries_zero_totals_witness:
  "find_one (\<lambda>x. cust_id x = ''c1'') (customers w_db) = Some w_customer \<and>
   find_one (\<lambda>x. entry_id x = ''e1'') (credit_entries w_db) = Some w_entry \<and>
   entries_of w_db ''c1'' = [w_entry] \<and>
   delete_credit_entry w_db ''e1'' = Inr w_db_deleted \<and>
   entries_of w_db_deleted ''c1'' = [] \<and>
   find_one (\<lambda>x. cust_id x = ''c1'') (customers w_db_deleted) =
     Some (w_customer\<lparr>total_credit := 0, total_paid := 0, outstanding_balance := 0\<rparr>) \<and>
   find_one (\<lambda>x. cust_id x = ''c1'') (customers (update_customer_totals w_db_deleted ''c1'')) =
     Some (w_customer\<lparr>total_credit := 0, total_paid := 0, outstanding_balance := 0\<rparr>)"
proof -
  have f: "find_one (\<lambda>x. cust_id x = ''c1'') (customers w_db_deleted) =
     Some (w_customer\<lparr>total_credit := 0, total_paid := 0, outstanding_balance := 0\<rparr>)"
    by (simp add: w_defs)
  have n: "entries_of w_db_deleted ''c1'' = []"
    by (simp add: entries_of_def w_defs)
  from no_entries_zero_totals [OF w_find_customer, of "''e1''" w_entry]
    w_find_entry w_entries_of w_deleted
  have "find_one (\<lambda>x. cust_id x = ''c1'') (customers w_db_deleted) =
     Some (w_customer\<lparr>total_credit := 0, total_paid := 0, outstanding_balance := 0\<rparr>)"
    by auto
  moreover from no_entries_zero_totals [OF f, of "''e1''" w_entry] n
  have "find_one (\<lambda>x. cust_id x = ''c1'')
      (customers (update_customer_totals w_db_deleted ''c1'')) =
     Some (w_customer\<lparr>total_credit := 0, total_paid := 0, outstanding_balance := 0\<rparr>)"
    by simp
  ultimately show ?thesis
    using w_find_customer w_find_entry w_entries_of w_deleted n by (intro conjI)
qed

end
